theory Spec2Isabelle
  imports Main "HOL-Library.Sublist"
begin

section \<open>Python values, errors and dictionaries\<close>

text \<open>
  The module works on untyped Python data: the decoded JSON of the metadata provider, the
  decoded YAML of a snapshot, and the records of a query. A value is \<open>None\<close>, a bool, an
  int, a str, a list or a dict (floats are not modelled). A dict is an association list
  in insertion order; its keys are hashable values, compared with Python's \<open>==\<close>, for
  which \<open>True == 1\<close> and \<open>False == 0\<close>. A str is a list of characters with codes
  below 256. A function that can raise returns \<open>Inl\<close> of the exception.
\<close>

datatype pyval =
  PNone
  | PBool bool
  | PInt int
  | PStr string
  | PList "pyval list"
  | PDict "(pyval \<times> pyval) list"

datatype error = TypeError | KeyError | IndexError | AttributeError

type_synonym 'a result = "error + 'a"

type_synonym pydict = "(pyval \<times> pyval) list"

definition bind_r :: "'a result \<Rightarrow> ('a \<Rightarrow> 'b result) \<Rightarrow> 'b result" where
  "bind_r m f = (case m of Inl e \<Rightarrow> Inl e | Inr v \<Rightarrow> f v)"

fun map_r :: "('a \<Rightarrow> 'b result) \<Rightarrow> 'a list \<Rightarrow> 'b list result" where
  "map_r f [] = Inr []"
| "map_r f (x # xs) = bind_r (f x) (\<lambda>y. bind_r (map_r f xs) (\<lambda>ys. Inr (y # ys)))"

text \<open>\<open>bool(v)\<close>: what an \<open>if v:\<close> tests.\<close>

fun truthy :: "pyval \<Rightarrow> bool" where
  "truthy PNone = False"
| "truthy (PBool b) = b"
| "truthy (PInt i) = (i \<noteq> 0)"
| "truthy (PStr s) = (s \<noteq> [])"
| "truthy (PList xs) = (xs \<noteq> [])"
| "truthy (PDict kvs) = (kvs \<noteq> [])"

fun hashable :: "pyval \<Rightarrow> bool" where
  "hashable (PList xs) = False"
| "hashable (PDict kvs) = False"
| "hashable v = True"

fun key_norm :: "pyval \<Rightarrow> pyval" where
  "key_norm (PBool b) = PInt (if b then 1 else 0)"
| "key_norm v = v"

definition key_eq :: "pyval \<Rightarrow> pyval \<Rightarrow> bool" where
  "key_eq a b = (key_norm a = key_norm b)"

fun dict_find :: "pydict \<Rightarrow> pyval \<Rightarrow> pyval option" where
  "dict_find [] k = None"
| "dict_find ((k', v) # kvs) k = (if key_eq k' k then Some v else dict_find kvs k)"

text \<open>\<open>d[k] = v\<close> for a hashable key: an existing entry keeps its place and its key.\<close>

fun dict_put :: "pydict \<Rightarrow> pyval \<Rightarrow> pyval \<Rightarrow> pydict" where
  "dict_put [] k v = [(k, v)]"
| "dict_put ((k', v') # kvs) k v =
     (if key_eq k' k then (k', v) # kvs else (k', v') # dict_put kvs k v)"

definition py_setitem :: "pydict \<Rightarrow> pyval \<Rightarrow> pyval \<Rightarrow> pydict result" where
  "py_setitem d k v = (if hashable k then Inr (dict_put d k v) else Inl TypeError)"

text \<open>\<open>x.get(k, dflt)\<close>: only a dict has the method.\<close>

fun py_get :: "pyval \<Rightarrow> pyval \<Rightarrow> pyval \<Rightarrow> pyval result" where
  "py_get (PDict d) k dflt =
     (if hashable k then Inr (case dict_find d k of Some v \<Rightarrow> v | None \<Rightarrow> dflt)
      else Inl TypeError)"
| "py_get x k dflt = Inl AttributeError"

text \<open>Indexing a sequence: a negative index counts from the end.\<close>

definition seq_index :: "'a list \<Rightarrow> int \<Rightarrow> 'a result" where
  "seq_index xs i =
     (if 0 \<le> i \<and> i < int (length xs) then Inr (xs ! nat i)
      else if i < 0 \<and> - int (length xs) \<le> i then Inr (xs ! nat (int (length xs) + i))
      else Inl IndexError)"

text \<open>\<open>x[k]\<close> (slices are not modelled).\<close>

fun py_subscript :: "pyval \<Rightarrow> pyval \<Rightarrow> pyval result" where
  "py_subscript (PDict d) k =
     (if hashable k
      then (case dict_find d k of Some v \<Rightarrow> Inr v | None \<Rightarrow> Inl KeyError)
      else Inl TypeError)"
| "py_subscript (PList xs) (PInt i) = seq_index xs i"
| "py_subscript (PList xs) (PBool b) = seq_index xs (if b then 1 else 0)"
| "py_subscript (PStr s) (PInt i) = seq_index (map (\<lambda>c. PStr [c]) s) i"
| "py_subscript (PStr s) (PBool b) = seq_index (map (\<lambda>c. PStr [c]) s) (if b then 1 else 0)"
| "py_subscript x k = Inl TypeError"

text \<open>The elements a \<open>for\<close> loop or a comprehension runs over.\<close>

fun py_iter :: "pyval \<Rightarrow> pyval list result" where
  "py_iter (PList xs) = Inr xs"
| "py_iter (PDict d) = Inr (map fst d)"
| "py_iter (PStr s) = Inr (map (\<lambda>c. PStr [c]) s)"
| "py_iter x = Inl TypeError"

fun str_contains :: "string \<Rightarrow> string \<Rightarrow> bool" where
  "str_contains sub [] = (sub = [])"
| "str_contains sub (c # cs) = (prefix sub (c # cs) \<or> str_contains sub cs)"

text \<open>\<open>s in x\<close> for a str \<open>s\<close>: key of a dict, element of a list, substring of a str.\<close>

fun py_contains_str :: "string \<Rightarrow> pyval \<Rightarrow> bool result" where
  "py_contains_str s (PDict d) = Inr (dict_find d (PStr s) \<noteq> None)"
| "py_contains_str s (PList xs) = Inr (PStr s \<in> set xs)"
| "py_contains_str s (PStr t) = Inr (str_contains s t)"
| "py_contains_str s x = Inl TypeError"

fun py_keys :: "pyval \<Rightarrow> pyval list result" where
  "py_keys (PDict d) = Inr (map fst d)"
| "py_keys x = Inl AttributeError"

fun py_values :: "pyval \<Rightarrow> pyval list result" where
  "py_values (PDict d) = Inr (map snd d)"
| "py_values x = Inl AttributeError"

fun py_items :: "pyval \<Rightarrow> (pyval \<times> pyval) list result" where
  "py_items (PDict d) = Inr d"
| "py_items x = Inl AttributeError"

subsection \<open>Strings\<close>

text \<open>\<open>s.replace(old, new)\<close>: every occurrence, left to right, without overlap.\<close>

fun str_replace :: "string \<Rightarrow> string \<Rightarrow> string \<Rightarrow> string" where
  "str_replace old new [] = (if old = [] then new else [])"
| "str_replace old new (c # cs) =
     (if old = [] then new @ concat (map (\<lambda>x. x # new) (c # cs))
      else if prefix old (c # cs) then new @ str_replace old new (drop (length old - 1) cs)
      else c # str_replace old new cs)"

fun py_replace :: "pyval \<Rightarrow> string \<Rightarrow> string \<Rightarrow> pyval result" where
  "py_replace (PStr s) old new = Inr (PStr (str_replace old new s))"
| "py_replace x old new = Inl AttributeError"

fun join_strs :: "string \<Rightarrow> string list \<Rightarrow> string" where
  "join_strs sep [] = []"
| "join_strs sep [s] = s"
| "join_strs sep (s # t # ts) = s @ sep @ join_strs sep (t # ts)"

fun as_str :: "pyval \<Rightarrow> string result" where
  "as_str (PStr s) = Inr s"
| "as_str x = Inl TypeError"

text \<open>\<open>sep.join(xs)\<close>: a TypeError unless every element is a str.\<close>

definition py_join :: "string \<Rightarrow> pyval list \<Rightarrow> string result" where
  "py_join sep xs = bind_r (map_r as_str xs) (\<lambda>ss. Inr (join_strs sep ss))"

definition digit_char :: "nat \<Rightarrow> char" where
  "digit_char n = char_of (48 + n)"

function show_nat :: "nat \<Rightarrow> string" where
  "show_nat n = (if n < 10 then [digit_char n] else show_nat (n div 10) @ [digit_char (n mod 10)])"
  by pat_completeness auto
termination
  by (relation "measure id") auto

definition show_int :: "int \<Rightarrow> string" where
  "show_int i = (if i < 0 then CHR ''-'' # show_nat (nat (- i)) else show_nat (nat i))"

text \<open>
  What an f-string prints for \<open>{v}\<close>. The printed form of a list or a mapping depends on
  its Python class (\<open>dict\<close> or \<open>OrderedDict\<close>) and on the interpreter, so it is the
  parameter \<open>repr\<close>.
\<close>

fun py_format :: "(pyval \<Rightarrow> string) \<Rightarrow> pyval \<Rightarrow> string" where
  "py_format repr PNone = ''None''"
| "py_format repr (PBool b) = (if b then ''True'' else ''False'')"
| "py_format repr (PInt i) = show_int i"
| "py_format repr (PStr s) = s"
| "py_format repr v = repr v"

section \<open>The collaborators and the process state\<close>

text \<open>
  \<open>describe_object\<close>, \<open>get_all_objects\<close> and \<open>run_soql_query\<close> wrap the Salesforce
  client and catch its exceptions: a failed describe is \<open>None\<close>, a failed enumeration
  or query is the empty list. They are the fields of \<open>env\<close>, with \<open>container_repr\<close>,
  the printed form of a list or mapping (see \<open>py_format\<close>). Opening the session
  (\<open>get_client\<close>, which ends the process when it cannot connect) is not modelled.
\<close>

record env =
  describe_object :: "string \<Rightarrow> pyval"
  get_all_objects :: "string list"
  run_soql_query :: "string \<Rightarrow> pyval list"
  container_repr :: "pyval \<Rightarrow> string"

text \<open>
  A snapshot file read back: the value \<open>yaml.safe_load\<close> returns, or \<open>Unreadable\<close> when
  opening or parsing raises. A folder is the list of its \<open>*.yaml\<close> files, each under the
  object name its file name gives; \<open>yaml.dump\<close> followed by \<open>yaml.safe_load\<close> is taken
  to return the value dumped.
\<close>

datatype yaml = Parsed pyval | Unreadable

type_synonym folder = "(string \<times> yaml) list"

record world =
  object_definitions :: pydict
  files :: "string \<Rightarrow> folder"

definition write_file :: "folder \<Rightarrow> string \<Rightarrow> yaml \<Rightarrow> folder" where
  "write_file fo name content = (name, content) # filter (\<lambda>(n, c). n \<noteq> name) fo"

section \<open>load_object_definitions\<close>

text \<open>The dict built for one raw field (lines 148 to 155).\<close>

definition field_info :: "pyval \<Rightarrow> pyval result" where
  "field_info f =
     bind_r (py_get f (PStr ''name'') PNone) (\<lambda>name.
     bind_r (py_get f (PStr ''label'') PNone) (\<lambda>label.
     bind_r (py_get f (PStr ''type'') PNone) (\<lambda>type.
     bind_r (py_get f (PStr ''referenceTo'') PNone) (\<lambda>rt.
     bind_r (if truthy rt
             then bind_r (py_get f (PStr ''referenceTo'') (PList []))
                    (\<lambda>r. py_subscript r (PInt 0))
             else Inr PNone) (\<lambda>reference.
     bind_r (py_get f (PStr ''length'') PNone) (\<lambda>len.
     bind_r (py_get f (PStr ''picklistValues'') (PList [])) (\<lambda>pvs.
     bind_r (py_iter pvs) (\<lambda>options.
     bind_r (map_r (\<lambda>pv. py_subscript pv (PStr ''value'')) options) (\<lambda>vals.
       Inr (PDict [(PStr ''name'', name), (PStr ''label'', label), (PStr ''type'', type),
                   (PStr ''reference'', reference), (PStr ''length'', len),
                   (PStr ''picklistValues'', PList vals)]))))))))))"

text \<open>
  \<open>{field['name']: field for field in fields if 'name' in field}\<close>, the comprehension
  of lines 159 and 179, with the dict built so far as accumulator.
\<close>

fun build_schema :: "pyval list \<Rightarrow> pydict \<Rightarrow> pydict result" where
  "build_schema [] acc = Inr acc"
| "build_schema (field # flds) acc =
     bind_r (py_contains_str ''name'' field) (\<lambda>has_name.
       if has_name
       then bind_r (py_subscript field (PStr ''name'')) (\<lambda>k.
            bind_r (py_setitem acc k field) (\<lambda>acc'. build_schema flds acc'))
       else build_schema flds acc)"

text \<open>
  The body of the live loop for one object name (lines 141 to 166). Nothing catches what
  it raises, so an exception ends the whole call.
\<close>

definition load_live_object :: "env \<Rightarrow> string option \<Rightarrow> string \<Rightarrow> world \<Rightarrow> world result" where
  "load_live_object e output object_name w =
     (let obj_desc = describe_object e object_name in
      if \<not> truthy obj_desc then Inr w
      else
        bind_r (py_get obj_desc (PStr ''fields'') (PList [])) (\<lambda>fl.
        bind_r (py_iter fl) (\<lambda>raw.
        bind_r (map_r field_info raw) (\<lambda>flds.
        bind_r (build_schema flds []) (\<lambda>schema.
          let w' = w\<lparr>object_definitions :=
                      dict_put (object_definitions w) (PStr object_name) (PDict schema)\<rparr>
          in Inr (case output of
                    None \<Rightarrow> w'
                  | Some out \<Rightarrow>
                      if out = [] then w'
                      else w'\<lparr>files := (files w')
                             (out := write_file (files w' out) object_name
                                       (Parsed (PList flds)))\<rparr>))))))"

fun load_live :: "env \<Rightarrow> string option \<Rightarrow> string list \<Rightarrow> world \<Rightarrow> world result" where
  "load_live e output [] w = Inr w"
| "load_live e output (object_name # rest) w =
     bind_r (load_live_object e output object_name w) (load_live e output rest)"

text \<open>The body of the snapshot loop for one file (lines 172 to 182); nothing it raises escapes.\<close>

definition load_cached_file :: "string list option \<Rightarrow> pydict \<Rightarrow> string \<times> yaml \<Rightarrow> pydict" where
  "load_cached_file names defs file =
     (case file of (object_name, content) \<Rightarrow>
        if names \<noteq> None \<and> object_name \<notin> set (the names) then defs
        else (case content of
                Unreadable \<Rightarrow> defs
              | Parsed (PList flds) \<Rightarrow>
                  (case build_schema flds [] of
                     Inl err \<Rightarrow> defs
                   | Inr schema \<Rightarrow> dict_put defs (PStr object_name) (PDict schema))
              | Parsed other \<Rightarrow> defs))"

text \<open>
  \<open>names\<close> is a list or \<open>None\<close>; a call that omits it passes the default \<open>[]\<close>, that is
  \<open>Some []\<close>. \<open>cache_folder\<close> and \<open>output\<close> are a path or \<open>None\<close>.
\<close>

definition load_object_definitions ::
  "env \<Rightarrow> string list option \<Rightarrow> string option \<Rightarrow> string option \<Rightarrow> world \<Rightarrow> world result" where
  "load_object_definitions e names cache_folder output w =
     (let object_names = (case names of
                            Some (n # ns) \<Rightarrow> n # ns
                          | other \<Rightarrow> get_all_objects e)
      in case cache_folder of
           None \<Rightarrow> load_live e output object_names w
         | Some dir \<Rightarrow>
             Inr (w\<lparr>object_definitions :=
                      foldl (load_cached_file names) (object_definitions w) (files w dir)\<rparr>))"

section \<open>Lookup, queries and reference resolution\<close>

definition get_object_fields :: "pydict \<Rightarrow> pyval \<Rightarrow> pyval result" where
  "get_object_fields defs name =
     (if defs = [] then Inr PNone
      else if \<not> hashable name then Inl TypeError
      else (case dict_find defs name of Some flds \<Rightarrow> Inr flds | None \<Rightarrow> Inr PNone))"

text \<open>
  \<open>get_object\<close> returns the records together with the queries it sent to
  \<open>run_soql_query\<close> (none or one).
\<close>

definition get_object ::
  "env \<Rightarrow> pydict \<Rightarrow> pyval \<Rightarrow> string option \<Rightarrow> (pyval list \<times> string list) result" where
  "get_object e defs object_name where_clause =
     bind_r (get_object_fields defs object_name) (\<lambda>flds.
       if \<not> truthy flds then Inr ([], [])
       else
         bind_r (py_keys flds) (\<lambda>ks.
         bind_r (py_join '', '' ks) (\<lambda>field_list.
           let query = ''SELECT '' @ field_list @ '' FROM ''
                         @ py_format (container_repr e) object_name;
               query' = (case where_clause of
                           None \<Rightarrow> query
                         | Some wh \<Rightarrow> if wh = [] then query else query @ '' WHERE '' @ wh)
           in Inr (run_soql_query e query', [query']))))"

definition get_object_by_id ::
  "env \<Rightarrow> pydict \<Rightarrow> pyval \<Rightarrow> pyval \<Rightarrow> (pyval \<times> string list) result" where
  "get_object_by_id e defs object_name ident =
     bind_r (get_object e defs object_name
               (Some (''Id = '' @ [CHR 0x27] @ py_format (container_repr e) ident @ [CHR 0x27])))
       (\<lambda>(results, sent). Inr (case results of [] \<Rightarrow> PNone | r # rs \<Rightarrow> r, sent))"

text \<open>
  \<open>{field['name']: field for field in fields.values() if field.get('reference')}\<close>
  (line 277).
\<close>

fun build_references :: "pyval list \<Rightarrow> pydict \<Rightarrow> pydict result" where
  "build_references [] acc = Inr acc"
| "build_references (field # flds) acc =
     bind_r (py_get field (PStr ''reference'') PNone) (\<lambda>r.
       if truthy r
       then bind_r (py_subscript field (PStr ''name'')) (\<lambda>k.
            bind_r (py_setitem acc k field) (\<lambda>acc'. build_references flds acc'))
       else build_references flds acc)"

definition get_object_references :: "pydict \<Rightarrow> pyval \<Rightarrow> pyval result" where
  "get_object_references defs object_name =
     bind_r (get_object_fields defs object_name) (\<lambda>flds.
       if \<not> truthy flds then Inr (PList [])
       else bind_r (py_values flds) (\<lambda>vs.
            bind_r (build_references vs []) (\<lambda>references. Inr (PDict references))))"

text \<open>\<open>not (refs is not None and field_name not in refs)\<close>.\<close>

definition refs_allow :: "pyval list option \<Rightarrow> pyval \<Rightarrow> bool" where
  "refs_allow refs field_name =
     (case refs of None \<Rightarrow> True | Some rs \<Rightarrow> list_ex (key_eq field_name) rs)"

text \<open>
  The body of the loop of \<open>resolve_references\<close> (lines 296 to 304) for one reference
  field, on the record and the queries sent so far.
\<close>

definition resolve_field ::
  "env \<Rightarrow> pydict \<Rightarrow> pyval list option \<Rightarrow> pyval \<times> pyval \<Rightarrow> pydict \<times> string list
     \<Rightarrow> (pydict \<times> string list) result" where
  "resolve_field e defs refs item st =
     (case item of (field_name, info) \<Rightarrow>
      case st of (obj, sent) \<Rightarrow>
        bind_r (py_get (PDict obj) field_name PNone) (\<lambda>v.
          if \<not> truthy v then Inr (obj, sent)
          else if \<not> refs_allow refs field_name then Inr (obj, sent)
          else
            bind_r (py_subscript info (PStr ''reference'')) (\<lambda>ref_obj_name.
            bind_r (py_subscript (PDict obj) field_name) (\<lambda>ref_id.
            bind_r (get_object_by_id e defs ref_obj_name ref_id) (\<lambda>(ref_data, qs).
              if truthy ref_data
              then bind_r (py_replace field_name ''__c'' ''__r'') (\<lambda>resolved_key.
                   bind_r (py_setitem obj resolved_key ref_data) (\<lambda>obj'.
                     Inr (obj', sent @ qs)))
              else Inr (obj, sent @ qs))))))"

fun resolve_loop ::
  "env \<Rightarrow> pydict \<Rightarrow> pyval list option \<Rightarrow> (pyval \<times> pyval) list \<Rightarrow> pydict \<times> string list
     \<Rightarrow> (pydict \<times> string list) result" where
  "resolve_loop e defs refs [] st = Inr st"
| "resolve_loop e defs refs (item # items) st =
     bind_r (resolve_field e defs refs item st) (resolve_loop e defs refs items)"

definition resolve_references ::
  "env \<Rightarrow> pydict \<Rightarrow> pydict \<Rightarrow> pyval \<Rightarrow> pyval list option \<Rightarrow> (pydict \<times> string list) result" where
  "resolve_references e defs obj object_name refs =
     bind_r (get_object_references defs object_name) (\<lambda>reference_fields.
       if \<not> truthy reference_fields then Inr (obj, [])
       else bind_r (py_items reference_fields) (\<lambda>items.
              resolve_loop e defs refs items (obj, [])))"

text \<open>A field is populated in a record when \<open>obj.get(field_name)\<close> is truthy.\<close>

definition populated :: "pydict \<Rightarrow> pyval \<Rightarrow> bool" where
  "populated obj field_name =
     truthy (case dict_find obj field_name of Some v \<Rightarrow> v | None \<Rightarrow> PNone)"


section \<open>A small organisation for the examples\<close>

text \<open>The dict \<open>load_object_definitions\<close> keeps for a field with this name and target.\<close>

definition descriptor :: "string \<Rightarrow> pyval \<Rightarrow> pyval" where
  "descriptor name reference =
     PDict [(PStr ''name'', PStr name), (PStr ''label'', PNone), (PStr ''type'', PNone),
            (PStr ''reference'', reference), (PStr ''length'', PNone),
            (PStr ''picklistValues'', PList [])]"

definition org_defs :: pydict where
  "org_defs =
     [(PStr ''Account'', PDict
         [(PStr ''Id'', descriptor ''Id'' PNone),
          (PStr ''Name'', descriptor ''Name'' PNone),
          (PStr ''OwnerId'', descriptor ''OwnerId'' (PStr ''User'')),
          (PStr ''Parent__c'', descriptor ''Parent__c'' (PStr ''Account''))]),
      (PStr ''User'', PDict
         [(PStr ''Id'', descriptor ''Id'' PNone),
          (PStr ''Name'', descriptor ''Name'' PNone)])]"

definition org_user :: pyval where
  "org_user = PDict [(PStr ''Id'', PStr ''005''), (PStr ''Name'', PStr ''Ann'')]"

definition org_parent :: pyval where
  "org_parent = PDict [(PStr ''Id'', PStr ''002''), (PStr ''Name'', PStr ''Holding''),
                       (PStr ''OwnerId'', PStr ''005''), (PStr ''Parent__c'', PNone)]"

definition org_account :: pydict where
  "org_account = [(PStr ''Id'', PStr ''001''), (PStr ''Name'', PStr ''Acme''),
                  (PStr ''OwnerId'', PStr ''005''), (PStr ''Parent__c'', PStr ''002'')]"

definition user_query :: string where
  "user_query = ''SELECT Id, Name FROM User WHERE Id = '' @ [CHR 0x27] @ ''005'' @ [CHR 0x27]"

definition parent_query :: string where
  "parent_query = ''SELECT Id, Name, OwnerId, Parent__c FROM Account WHERE Id = ''
                    @ [CHR 0x27] @ ''002'' @ [CHR 0x27]"

text \<open>
  The executor of the examples knows one user and one account. The examples never print
  a list or a mapping whose printed form matters, so \<open>container_repr\<close> is a placeholder.
\<close>

definition org_env :: env where
  "org_env =
     \<lparr>describe_object = (\<lambda>name. PNone),
      get_all_objects = [],
      run_soql_query = (\<lambda>q. if q = user_query then [org_user]
                              else if q = parent_query then [org_parent] else []),
      container_repr = (\<lambda>v. ''<container>'')\<rparr>"



text \<open>
  A provider whose description of \<open>Lead\<close> holds one raw field without a \<open>name\<close>
  and one with; \<open>lead_fields\<close> are the dicts the live loop builds from them.
\<close>

definition lead_describe :: pyval where
  "lead_describe =
     PDict [(PStr ''fields'', PList
       [PDict [(PStr ''label'', PStr ''Orphan'')],
        PDict [(PStr ''name'', PStr ''Id''), (PStr ''label'', PStr ''Record ID'')]])]"

definition lead_env :: env where
  "lead_env =
     \<lparr>describe_object = (\<lambda>name. if name = ''Lead'' then lead_describe else PNone),
      get_all_objects = [''Lead''],
      run_soql_query = (\<lambda>q. []),
      container_repr = (\<lambda>v. ''<container>'')\<rparr>"

definition lead_fields :: "pyval list" where
  "lead_fields =
     [PDict [(PStr ''name'', PNone), (PStr ''label'', PStr ''Orphan''), (PStr ''type'', PNone),
             (PStr ''reference'', PNone), (PStr ''length'', PNone),
             (PStr ''picklistValues'', PList [])],
      PDict [(PStr ''name'', PStr ''Id''), (PStr ''label'', PStr ''Record ID''),
             (PStr ''type'', PNone), (PStr ''reference'', PNone), (PStr ''length'', PNone),
             (PStr ''picklistValues'', PList [])]]"

definition empty_world :: world where
  "empty_world = \<lparr>object_definitions = [], files = (\<lambda>dir. [])\<rparr>"






text \<open>Two objects that refer to each other, and one record of each.\<close>

definition cycle_defs :: pydict where
  "cycle_defs =
     [(PStr ''A'', PDict [(PStr ''Id'', descriptor ''Id'' PNone),
                          (PStr ''B__c'', descriptor ''B__c'' (PStr ''B''))]),
      (PStr ''B'', PDict [(PStr ''Id'', descriptor ''Id'' PNone),
                          (PStr ''A__c'', descriptor ''A__c'' (PStr ''A''))])]"

definition cycle_a :: pydict where
  "cycle_a = [(PStr ''Id'', PStr ''a1''), (PStr ''B__c'', PStr ''b1'')]"

definition cycle_b :: pydict where
  "cycle_b = [(PStr ''Id'', PStr ''b1''), (PStr ''A__c'', PStr ''a1'')]"

definition cycle_env :: env where
  "cycle_env =
     \<lparr>describe_object = (\<lambda>name. PNone),
      get_all_objects = [],
      run_soql_query = (\<lambda>q.
         if q = ''SELECT Id, A__c FROM B WHERE Id = '' @ [CHR 0x27] @ ''b1'' @ [CHR 0x27]
         then [PDict cycle_b]
         else if q = ''SELECT Id, B__c FROM A WHERE Id = '' @ [CHR 0x27] @ ''a1'' @ [CHR 0x27]
         then [PDict cycle_a] else []),
      container_repr = (\<lambda>v. ''<container>'')\<rparr>"

section \<open>Basic facts\<close>

lemma bind_r_Inl [simp]: "bind_r (Inl err) f = Inl err"
  by (simp add: bind_r_def)

lemma bind_r_Inr [simp]: "bind_r (Inr v) f = f v"
  by (simp add: bind_r_def)

lemma bind_r_eq_Inr: "bind_r m f = Inr y \<longleftrightarrow> (\<exists>x. m = Inr x \<and> f x = Inr y)"
  by (cases m) simp_all

lemma key_eq_refl [simp]: "key_eq k k"
  by (simp add: key_eq_def)

lemma key_eq_PStr [simp]: "key_eq (PStr s) k \<longleftrightarrow> k = PStr s"
  by (cases k) (auto simp: key_eq_def)

lemma key_eq_PStr2 [simp]: "key_eq k (PStr s) \<longleftrightarrow> k = PStr s"
  by (cases k) (auto simp: key_eq_def)

lemma dict_find_put:
  "dict_find (dict_put d k v) k' = (if key_eq k k' then Some v else dict_find d k')"
proof (induction d)
  case Nil
  then show ?case by simp
next
  case (Cons kv d)
  obtain k1 v1 where kv: "kv = (k1, v1)" by (cases kv)
  show ?case
  proof (cases "key_eq k1 k")
    case True
    then have "key_eq k1 k' \<longleftrightarrow> key_eq k k'"
      by (auto simp: key_eq_def)
    with True show ?thesis by (simp add: kv)
  next
    case False
    then have "key_eq k k' \<Longrightarrow> \<not> key_eq k1 k'"
      by (auto simp: key_eq_def)
    with False Cons show ?thesis by (auto simp: kv)
  qed
qed


subsection \<open>The embedded key never contains the custom-field suffix\<close>






section \<open>Evaluating the examples\<close>

lemmas org_simps = org_defs_def org_user_def org_parent_def org_account_def user_query_def
  parent_query_def org_env_def descriptor_def

lemmas run_simps = resolve_references_def get_object_references_def get_object_fields_def
  key_eq_def py_setitem_def resolve_field_def refs_allow_def get_object_by_id_def
  get_object_def py_join_def

lemmas load_simps = load_object_definitions_def load_live_object_def field_info_def
  load_cached_file_def py_setitem_def key_eq_def write_file_def

section \<open>resolve_references: which keys keep their value\<close>







section \<open>resolve_references: fields without a value\<close>

text \<open>
  Claim C10. A reference field whose value in the record is falsy (\<open>None\<close>, absent,
  the empty string, \<open>0\<close>, \<open>False\<close>, or an empty list or dict) is skipped: the loop
  body returns the record and the queries sent so far unchanged, so nothing is fetched
  and no key is added, and the loop goes on as if the field were not there.
\<close>

theorem falsy_reference_skipped:
  assumes "hashable field_name"
    and "\<not> truthy (case dict_find obj field_name of Some v \<Rightarrow> v | None \<Rightarrow> PNone)"
  shows "resolve_field e defs refs (field_name, info) (obj, sent) = Inr (obj, sent)
    \<and> resolve_loop e defs refs ((field_name, info) # items) (obj, sent)
        = resolve_loop e defs refs items (obj, sent)"
proof -
  have "resolve_field e defs refs (field_name, info) (obj, sent) = Inr (obj, sent)"
    using assms by (simp add: resolve_field_def)
  then show ?thesis by simp
qed

theorem falsy_reference_skipped_witness:
  "hashable (PStr ''OwnerId'')
   \<and> \<not> truthy (case dict_find [(PStr ''OwnerId'', PStr []), (PStr ''Parent__c'', PInt 0)]
                       (PStr ''OwnerId'') of Some v \<Rightarrow> v | None \<Rightarrow> PNone)
   \<and> resolve_loop org_env org_defs None
        [(PStr ''OwnerId'', descriptor ''OwnerId'' (PStr ''User'')),
         (PStr ''Parent__c'', descriptor ''Parent__c'' (PStr ''Account''))]
        ([(PStr ''OwnerId'', PStr []), (PStr ''Parent__c'', PInt 0)], [])
      = Inr ([(PStr ''OwnerId'', PStr []), (PStr ''Parent__c'', PInt 0)], [])"
  using falsy_reference_skipped [of "PStr ''OwnerId''"
      "[(PStr ''OwnerId'', PStr []), (PStr ''Parent__c'', PInt 0)]" org_env org_defs None
      "descriptor ''OwnerId'' (PStr ''User'')" "[]"
      "[(PStr ''Parent__c'', descriptor ''Parent__c'' (PStr ''Account''))]"]
  by (simp add: run_simps)

section \<open>load_object_definitions\<close>

lemma foldl_load_cached_skip_all: "foldl (load_cached_file (Some [])) defs fo = defs"
  by (induction fo arbitrary: defs) (auto simp: load_cached_file_def)

text \<open>
  Claim C5. A call that omits \<open>names\<close> passes the default \<open>[]\<close>. In snapshot mode the
  filter \<open>names is not None and object_name not in names\<close> then skips every file, so
  the catalog is left as it was, whatever the cache folder holds: the claim's snapshot
  half fails, against the docstring's \<open>load_object_definitions(cache_folder='./cache')\<close>.
\<close>

theorem snapshot_mode_default_names_loads_nothing:
  "load_object_definitions e (Some []) (Some dir) output w = Inr w"
  by (simp add: load_object_definitions_def foldl_load_cached_skip_all)

text \<open>In live mode the same default does load every enumerated object.\<close>

lemma live_mode_default_names_loads_all:
  "load_object_definitions e (Some []) None output w = load_live e output (get_all_objects e) w"
  by (simp add: load_object_definitions_def)

text \<open>With \<open>names=None\<close> passed explicitly, snapshot mode filters nothing.\<close>

lemma snapshot_mode_none_loads_each:
  "load_cached_file None defs (object_name, Parsed (PList flds)) =
     (case build_schema flds [] of
        Inl err \<Rightarrow> defs
      | Inr schema \<Rightarrow> dict_put defs (PStr object_name) (PDict schema))"
  by (simp add: load_cached_file_def)

text \<open>
  Claim C4. In live mode the dict built for a raw field always has the key \<open>name\<close>
  (\<open>f.get('name')\<close> is \<open>None\<close> when the raw field has none), so the guard
  \<open>if 'name' in field\<close> never drops it: the nameless field of \<open>Lead\<close> is kept under
  the key \<open>None\<close>, and \<open>get_object\<close> on that schema raises a TypeError when it joins
  the keys.
\<close>

theorem live_mode_keeps_nameless_field:
  "load_object_definitions lead_env (Some [''Lead'']) None None empty_world
     = Inr (empty_world\<lparr>object_definitions :=
              [(PStr ''Lead'', PDict [(PNone, lead_fields ! 0), (PStr ''Id'', lead_fields ! 1)])]\<rparr>)
   \<and> get_object lead_env
         [(PStr ''Lead'', PDict [(PNone, lead_fields ! 0), (PStr ''Id'', lead_fields ! 1)])]
         (PStr ''Lead'') None = Inl TypeError"
  by (simp add: load_simps lead_env_def lead_describe_def lead_fields_def empty_world_def
      get_object_def get_object_fields_def py_join_def)

text \<open>Snapshot mode does drop an entry that has no \<open>name\<close> key.\<close>

lemma snapshot_mode_drops_nameless_field:
  "load_object_definitions e None (Some ''cache'') None
     (empty_world\<lparr>files := (\<lambda>dir. [(''Lead'', Parsed (PList
        [PDict [(PStr ''label'', PStr ''Orphan'')],
         PDict [(PStr ''name'', PStr ''Id''), (PStr ''label'', PStr ''Record ID'')]]))])\<rparr>)
   = Inr (empty_world\<lparr>files := (\<lambda>dir. [(''Lead'', Parsed (PList
        [PDict [(PStr ''label'', PStr ''Orphan'')],
         PDict [(PStr ''name'', PStr ''Id''), (PStr ''label'', PStr ''Record ID'')]]))]),
       object_definitions := [(PStr ''Lead'', PDict [(PStr ''Id'',
         PDict [(PStr ''name'', PStr ''Id''), (PStr ''label'', PStr ''Record ID'')])])]\<rparr>)"
  by (simp add: load_simps empty_world_def)

subsection \<open>A snapshot written by live mode, read back in snapshot mode\<close>

lemma dict_find_put_other:
  "n \<noteq> m \<Longrightarrow> dict_find (dict_put d (PStr n) v) (PStr m) = dict_find d (PStr m)"
  by (simp add: dict_find_put)











section \<open>get_object and get_object_by_id\<close>

lemma map_r_as_str: "map_r as_str (map PStr names) = Inr names"
  by (induction names) simp_all

text \<open>
  Claim C6. For a loaded object whose schema is not empty and whose field names are
  strings, \<open>get_object\<close> sends exactly one query: \<open>SELECT\<close>, the field names in the
  schema's order joined by \<open>, \<close>, \<open>FROM\<close> and the object name; a predicate that is
  not the empty string follows \<open>WHERE\<close> as it was given. It returns what the executor
  returns for that query.
\<close>

theorem get_object_query:
  assumes "dict_find defs (PStr name) = Some (PDict schema)"
    and "schema \<noteq> []"
    and "map fst schema = map PStr names"
  shows "get_object e defs (PStr name) where_clause =
           Inr (run_soql_query e
                  (''SELECT '' @ join_strs '', '' names @ '' FROM '' @ name
                     @ (case where_clause of
                          None \<Rightarrow> []
                        | Some wh \<Rightarrow> if wh = [] then [] else '' WHERE '' @ wh)),
                [''SELECT '' @ join_strs '', '' names @ '' FROM '' @ name
                     @ (case where_clause of
                          None \<Rightarrow> []
                        | Some wh \<Rightarrow> if wh = [] then [] else '' WHERE '' @ wh)])"
proof -
  from assms(1) have "defs \<noteq> []" by auto
  with assms show ?thesis
    by (simp add: get_object_def get_object_fields_def py_join_def map_r_as_str Let_def
        split: option.splits)
qed

theorem get_object_query_witness:
  "dict_find org_defs (PStr ''User'')
     = Some (PDict [(PStr ''Id'', descriptor ''Id'' PNone), (PStr ''Name'', descriptor ''Name'' PNone)])
   \<and> map fst [(PStr ''Id'', descriptor ''Id'' PNone), (PStr ''Name'', descriptor ''Name'' PNone)]
       = map PStr [''Id'', ''Name'']
   \<and> get_object org_env org_defs (PStr ''User'') (Some (''Name = '' @ [CHR 0x27] @ ''Ann'' @ [CHR 0x27]))
       = Inr ([], [''SELECT Id, Name FROM User WHERE Name = '' @ [CHR 0x27] @ ''Ann'' @ [CHR 0x27]])
   \<and> get_object org_env org_defs (PStr ''User'') None
       = Inr ([], [''SELECT Id, Name FROM User''])"
  using get_object_query [of org_defs "''User''"
      "[(PStr ''Id'', descriptor ''Id'' PNone), (PStr ''Name'', descriptor ''Name'' PNone)]"
      "[''Id'', ''Name'']" org_env "Some (''Name = '' @ [CHR 0x27] @ ''Ann'' @ [CHR 0x27])"]
    get_object_query [of org_defs "''User''"
      "[(PStr ''Id'', descriptor ''Id'' PNone), (PStr ''Name'', descriptor ''Name'' PNone)]"
      "[''Id'', ''Name'']" org_env None]
  by (simp add: org_simps)

text \<open>
  Claim C9. \<open>get_object_by_id\<close> returns \<open>None\<close> and sends nothing when the object has
  no schema loaded (or an empty one); for a loaded object it sends the query for the
  identifier and returns \<open>None\<close> when the executor yields no record, the first record
  otherwise.
\<close>

theorem get_object_by_id_first_or_none:
  "(get_object_fields defs (PStr name) = Inr flds \<and> \<not> truthy flds
      \<longrightarrow> get_object_by_id e defs (PStr name) ident = Inr (PNone, []))
   \<and> (dict_find defs (PStr name) = Some (PDict schema) \<and> schema \<noteq> []
        \<and> map fst schema = map PStr names
        \<and> q = ''SELECT '' @ join_strs '', '' names @ '' FROM '' @ name @ '' WHERE Id = ''
                @ [CHR 0x27] @ py_format (container_repr e) ident @ [CHR 0x27]
      \<longrightarrow> (run_soql_query e q = []
             \<longrightarrow> get_object_by_id e defs (PStr name) ident = Inr (PNone, [q]))
        \<and> (\<forall>r rs. run_soql_query e q = r # rs
             \<longrightarrow> get_object_by_id e defs (PStr name) ident = Inr (r, [q])))"
proof (intro conjI impI allI)
  assume "get_object_fields defs (PStr name) = Inr flds \<and> \<not> truthy flds"
  then show "get_object_by_id e defs (PStr name) ident = Inr (PNone, [])"
    by (simp add: get_object_by_id_def get_object_def)
next
  assume a: "dict_find defs (PStr name) = Some (PDict schema) \<and> schema \<noteq> []
        \<and> map fst schema = map PStr names
        \<and> q = ''SELECT '' @ join_strs '', '' names @ '' FROM '' @ name @ '' WHERE Id = ''
                @ [CHR 0x27] @ py_format (container_repr e) ident @ [CHR 0x27]"
  then have ne: "defs \<noteq> []" by auto
  have run: "get_object e defs (PStr name)
               (Some (''Id = '' @ [CHR 0x27] @ py_format (container_repr e) ident @ [CHR 0x27]))
             = Inr (run_soql_query e q, [q])"
    using a ne
    by (simp add: get_object_def get_object_fields_def py_join_def map_r_as_str Let_def)
  {
    assume "run_soql_query e q = []"
    with run show "get_object_by_id e defs (PStr name) ident = Inr (PNone, [q])"
      by (simp add: get_object_by_id_def)
  }
  {
    fix r rs
    assume "run_soql_query e q = r # rs"
    with run show "get_object_by_id e defs (PStr name) ident = Inr (r, [q])"
      by (simp add: get_object_by_id_def)
  }
qed


theorem get_object_by_id_first_or_none_witness:
  "get_object_by_id org_env org_defs (PStr ''User'') (PStr ''005'') = Inr (org_user, [user_query])
   \<and> get_object_by_id org_env org_defs (PStr ''User'') (PStr ''999'')
       = Inr (PNone, [''SELECT Id, Name FROM User WHERE Id = '' @ [CHR 0x27] @ ''999'' @ [CHR 0x27]])
   \<and> get_object_by_id org_env org_defs (PStr ''Contact'') (PStr ''003'') = Inr (PNone, [])"
  using
    get_object_by_id_first_or_none [where defs = org_defs and name = "''User''"
      and schema = "[(PStr ''Id'', descriptor ''Id'' PNone), (PStr ''Name'', descriptor ''Name'' PNone)]"
      and names = "[''Id'', ''Name'']" and e = org_env and ident = "PStr ''005''"
      and q = user_query and flds = PNone]
    get_object_by_id_first_or_none [where defs = org_defs and name = "''User''"
      and schema = "[(PStr ''Id'', descriptor ''Id'' PNone), (PStr ''Name'', descriptor ''Name'' PNone)]"
      and names = "[''Id'', ''Name'']" and e = org_env and ident = "PStr ''999''"
      and q = "''SELECT Id, Name FROM User WHERE Id = '' @ [CHR 0x27] @ ''999'' @ [CHR 0x27]"
      and flds = PNone]
    get_object_by_id_first_or_none [where defs = org_defs and name = "''Contact''"
      and e = org_env and ident = "PStr ''003''" and flds = PNone
      and q = "[]" and schema = "[]" and names = "[]"]
  by (simp add: org_simps get_object_fields_def)

section \<open>resolve_references: a fetch that returns nothing\<close>



section \<open>resolve_references: one level, one query per field\<close>

lemma get_object_sent:
  assumes "get_object e defs object_name where_clause = Inr (results, qs)"
  shows "(results = [] \<and> qs = []) \<or> (\<exists>q. qs = [q] \<and> results = run_soql_query e q)"
  using assms
  by (auto simp: get_object_def bind_r_eq_Inr Let_def split: if_splits)

lemma get_object_by_id_sent:
  assumes "get_object_by_id e defs object_name ident = Inr (data, qs)"
  shows "length qs \<le> 1"
    and "truthy data \<Longrightarrow> \<exists>q rs. qs = [q] \<and> run_soql_query e q = data # rs"
proof -
  from assms obtain results where
    g: "get_object e defs object_name
          (Some (''Id = '' @ [CHR 0x27] @ py_format (container_repr e) ident @ [CHR 0x27]))
        = Inr (results, qs)"
    and d: "data = (case results of [] \<Rightarrow> PNone | r # rs \<Rightarrow> r)"
    by (auto simp: get_object_by_id_def bind_r_eq_Inr)
  from get_object_sent [OF g] show "length qs \<le> 1" by auto
  show "\<exists>q rs. qs = [q] \<and> run_soql_query e q = data # rs" if "truthy data"
  proof -
    from that d obtain rs where r: "results = data # rs"
      by (cases results) auto
    with get_object_sent [OF g] obtain q where "qs = [q]" "run_soql_query e q = data # rs"
      by auto
    then show ?thesis by blast
  qed
qed

lemma resolve_field_step:
  assumes "resolve_field e defs refs (fn, info) (obj, sent) = Inr (obj', sent')"
  shows "\<exists>new. sent' = sent @ new
           \<and> length new \<le> (if populated obj fn then 1 else 0)
           \<and> (\<forall>key. dict_find obj' key = dict_find obj key
                  \<or> (\<exists>q\<in>set new. \<exists>r rs. run_soql_query e q = r # rs
                        \<and> dict_find obj' key = Some r))
           \<and> (\<forall>key. populated obj key \<longrightarrow> populated obj' key)"
proof -
  from assms obtain v where v: "py_get (PDict obj) fn PNone = Inr v"
    by (auto simp: resolve_field_def bind_r_eq_Inr)
  then have pop: "populated obj fn = truthy v"
    by (auto simp: populated_def split: if_splits)
  show ?thesis
  proof (cases "truthy v \<and> refs_allow refs fn")
    case False
    with assms v have "obj' = obj" "sent' = sent"
      by (auto simp: resolve_field_def split: if_splits)
    then show ?thesis by simp
  next
    case True
    with assms v obtain target rid data qs where
      fetch: "get_object_by_id e defs target rid = Inr (data, qs)"
      and fin: "(if truthy data
                 then bind_r (py_replace fn ''__c'' ''__r'') (\<lambda>resolved_key.
                      bind_r (py_setitem obj resolved_key data) (\<lambda>obj'. Inr (obj', sent @ qs)))
                 else Inr (obj, sent @ qs)) = Inr (obj', sent')"
      by (auto simp: resolve_field_def bind_r_eq_Inr)
    note bounds = get_object_by_id_sent [OF fetch]
    show ?thesis
    proof (cases "truthy data")
      case False
      with fin have "obj' = obj" "sent' = sent @ qs" by auto
      with bounds(1) True pop show ?thesis by auto
    next
      case data: True
      with fin obtain rk where put: "obj' = dict_put obj rk data" and s: "sent' = sent @ qs"
        by (auto simp: bind_r_eq_Inr py_setitem_def split: if_splits)
      from bounds(2) [OF data] obtain q rs where q: "qs = [q]" "run_soql_query e q = data # rs"
        by blast
      have "\<forall>key. populated obj key \<longrightarrow> populated obj' key"
        using data by (auto simp: populated_def put dict_find_put)
      moreover have "\<forall>key. dict_find obj' key = dict_find obj key
                  \<or> (\<exists>q\<in>set qs. \<exists>r rs. run_soql_query e q = r # rs
                        \<and> dict_find obj' key = Some r)"
        using q by (auto simp: put dict_find_put)
      ultimately show ?thesis
        using s q True pop by auto
    qed
  qed
qed

lemma resolve_loop_steps:
  assumes "resolve_loop e defs refs items (obj, sent) = Inr (obj', sent')"
  shows "\<exists>new. sent' = sent @ new
           \<and> length new \<le> length (filter (\<lambda>(fn, info). populated obj' fn) items)
           \<and> (\<forall>key. dict_find obj' key = dict_find obj key
                  \<or> (\<exists>q\<in>set new. \<exists>r rs. run_soql_query e q = r # rs
                        \<and> dict_find obj' key = Some r))
           \<and> (\<forall>key. populated obj key \<longrightarrow> populated obj' key)"
  using assms
proof (induction items arbitrary: obj sent)
  case Nil
  then show ?case by simp
next
  case (Cons item items)
  obtain fn info where item: "item = (fn, info)" by (cases item)
  from Cons.prems obtain obj1 sent1 where
    step: "resolve_field e defs refs (fn, info) (obj, sent) = Inr (obj1, sent1)"
    and rest: "resolve_loop e defs refs items (obj1, sent1) = Inr (obj', sent')"
    by (auto simp: item bind_r_eq_Inr)
  from resolve_field_step [OF step] obtain new1 where
    s1: "sent1 = sent @ new1"
    and l1: "length new1 \<le> (if populated obj fn then 1 else 0)"
    and v1: "\<And>key. dict_find obj1 key = dict_find obj key
                  \<or> (\<exists>q\<in>set new1. \<exists>r rs. run_soql_query e q = r # rs
                        \<and> dict_find obj1 key = Some r)"
    and p1: "\<And>key. populated obj key \<Longrightarrow> populated obj1 key"
    by blast
  from Cons.IH [OF rest] obtain new2 where
    s2: "sent' = sent1 @ new2"
    and l2: "length new2 \<le> length (filter (\<lambda>(fn, info). populated obj' fn) items)"
    and v2: "\<And>key. dict_find obj' key = dict_find obj1 key
                  \<or> (\<exists>q\<in>set new2. \<exists>r rs. run_soql_query e q = r # rs
                        \<and> dict_find obj' key = Some r)"
    and p2: "\<And>key. populated obj1 key \<Longrightarrow> populated obj' key"
    by blast
  have "sent' = sent @ (new1 @ new2)"
    using s1 s2 by simp
  moreover have "length (new1 @ new2)
                   \<le> length (filter (\<lambda>(fn, info). populated obj' fn) (item # items))"
    using l1 l2 p1 [of fn] p2 [of fn] by (auto simp: item split: if_splits)
  moreover have "\<forall>key. dict_find obj' key = dict_find obj key
                  \<or> (\<exists>q\<in>set (new1 @ new2). \<exists>r rs. run_soql_query e q = r # rs
                        \<and> dict_find obj' key = Some r)"
  proof
    fix key
    show "dict_find obj' key = dict_find obj key
                  \<or> (\<exists>q\<in>set (new1 @ new2). \<exists>r rs. run_soql_query e q = r # rs
                        \<and> dict_find obj' key = Some r)"
      using v1 [of key] v2 [of key] by (elim disjE) auto
  qed
  moreover have "\<forall>key. populated obj key \<longrightarrow> populated obj' key"
    using p1 p2 by blast
  ultimately show ?case by blast
qed

text \<open>
  Claim C3. \<open>resolve_references\<close> is a loop over the reference fields of the top-level
  object and nothing else (\<open>resolve_loop\<close> recurses on that list only, so it returns on
  every input). When it returns, it has sent at most one query for each reference field
  that is populated in the result, and every value of the result is either the value the
  record had or the first record the executor returned for one of those queries, as the
  executor returned it: nothing is resolved inside an embedded record. The witness runs
  it on a catalog where \<open>A\<close> refers to \<open>B\<close> and \<open>B\<close> to \<open>A\<close>.
\<close>

theorem resolve_references_single_level:
  assumes "resolve_references e defs obj object_name refs = Inr (obj', sent)"
  shows "\<exists>reference_fields.
           get_object_references defs object_name = Inr reference_fields
           \<and> length sent \<le> length (filter (\<lambda>(field_name, info). populated obj' field_name)
                  (case reference_fields of PDict items \<Rightarrow> items | other \<Rightarrow> []))
           \<and> (\<forall>key. dict_find obj' key = dict_find obj key
                  \<or> (\<exists>q\<in>set sent. \<exists>r rs. run_soql_query e q = r # rs
                        \<and> dict_find obj' key = Some r))"
proof -
  from assms obtain rf where rf: "get_object_references defs object_name = Inr rf"
    and run: "(if \<not> truthy rf then Inr (obj, [])
               else bind_r (py_items rf) (\<lambda>items. resolve_loop e defs refs items (obj, [])))
              = Inr (obj', sent)"
    by (auto simp: resolve_references_def bind_r_eq_Inr)
  show ?thesis
  proof (cases "truthy rf")
    case False
    with run rf show ?thesis by auto
  next
    case True
    with run obtain items where items: "rf = PDict items"
      and loop: "resolve_loop e defs refs items (obj, []) = Inr (obj', sent)"
      by (cases rf) (auto simp: bind_r_eq_Inr)
    from resolve_loop_steps [OF loop] rf items show ?thesis
      by auto
  qed
qed

theorem resolve_references_single_level_witness:
  "resolve_references cycle_env cycle_defs cycle_a (PStr ''A'') None
     = Inr ([(PStr ''Id'', PStr ''a1''), (PStr ''B__c'', PStr ''b1''), (PStr ''B__r'', PDict cycle_b)],
            [''SELECT Id, A__c FROM B WHERE Id = '' @ [CHR 0x27] @ ''b1'' @ [CHR 0x27]])
   \<and> get_object_references cycle_defs (PStr ''A'')
       = Inr (PDict [(PStr ''B__c'', descriptor ''B__c'' (PStr ''B''))])
   \<and> get_object_references cycle_defs (PStr ''B'')
       = Inr (PDict [(PStr ''A__c'', descriptor ''A__c'' (PStr ''A''))])
   \<and> dict_find cycle_b (PStr ''A__r'') = None"
proof -
  have run: "resolve_references cycle_env cycle_defs cycle_a (PStr ''A'') None
     = Inr ([(PStr ''Id'', PStr ''a1''), (PStr ''B__c'', PStr ''b1''), (PStr ''B__r'', PDict cycle_b)],
            [''SELECT Id, A__c FROM B WHERE Id = '' @ [CHR 0x27] @ ''b1'' @ [CHR 0x27]])"
    by (simp add: run_simps cycle_defs_def cycle_a_def cycle_b_def cycle_env_def descriptor_def)
  from resolve_references_single_level [OF run] run show ?thesis
    by (simp add: run_simps cycle_defs_def cycle_b_def descriptor_def)
qed


section \<open>resolve_references: resolving again\<close>













end
